theory Spec2Isabelle
  imports Main "HOL-Library.Word"
begin

section \<open>Data model of walletStorage.js\<close>

text \<open>
  The module keeps everything in the browser's \<^verbatim>\<open>localStorage\<close>: one JSON array of
  wallet records under a fixed key, and one encrypted blob per wallet under a prefixed
  key. JavaScript strings are sequences of UTF-16 code units, byte arrays
  (\<^verbatim>\<open>Uint8Array\<close>) are sequences of octets.
\<close>

type_synonym byte = "8 word"
type_synonym bytes = "byte list"
type_synonym jsstring = "16 word list"

definition js :: "string \<Rightarrow> jsstring" where
  \<comment> \<open>an ASCII literal of the source as a JavaScript string\<close>
  "js s = map of_char s"

record wallet =
  filename :: jsstring
  network :: jsstring
  createdAt :: jsstring
  lastUsed :: jsstring
  hasMnemonic :: bool

type_synonym storage = "jsstring \<rightharpoonup> jsstring"

definition WALLET_LIST_KEY :: jsstring where
  "WALLET_LIST_KEY = js ''kaspa_wallets''"

definition MNEMONIC_PREFIX :: jsstring where
  "MNEMONIC_PREFIX = js ''kaspa_mnemonic_''"

definition PBKDF2_ITERATIONS :: nat where
  "PBKDF2_ITERATIONS = 100000"

definition SALT_LENGTH :: nat where
  "SALT_LENGTH = 16"

definition IV_LENGTH :: nat where
  "IV_LENGTH = 12"

definition KEY_LENGTH :: nat where
  "KEY_LENGTH = 256"

text \<open>
  The services of the browser that the module calls but does not implement are
  parameters of the model: the Web Crypto primitives (PBKDF2 with SHA-256, AES-GCM) and
  the JSON codec. \<open>'k\<close> is the type of the opaque, non-extractable \<^verbatim>\<open>CryptoKey\<close>.
  \<open>aes_gcm_decrypt\<close> is \<open>None\<close> where \<^verbatim>\<open>crypto.subtle.decrypt\<close> rejects,
  \<open>json_parse\<close> is \<open>None\<close> where \<^verbatim>\<open>JSON.parse\<close> throws. The registry key is written
  by this module only, always as \<^verbatim>\<open>JSON.stringify\<close> of an array of records, so
  \<open>json_parse\<close> is typed by what the module stores (the return type its JSDoc declares
  for \<^verbatim>\<open>getStoredWallets\<close>); a string that is JSON for anything but an array of
  wallet records is never written by the module and has no counterpart in the model.
\<close>

record 'k platform =
  pbkdf2_sha256 :: "bytes \<Rightarrow> bytes \<Rightarrow> nat \<Rightarrow> nat \<Rightarrow> 'k"
  aes_gcm_encrypt :: "'k \<Rightarrow> bytes \<Rightarrow> bytes \<Rightarrow> bytes"
  aes_gcm_decrypt :: "'k \<Rightarrow> bytes \<Rightarrow> bytes \<Rightarrow> bytes option"
  json_stringify :: "wallet list \<Rightarrow> jsstring"
  json_parse :: "jsstring \<rightharpoonup> wallet list"

section \<open>The wallet registry\<close>

definition getStoredWallets :: "'k platform \<Rightarrow> storage \<Rightarrow> wallet list" where
  "getStoredWallets P s =
     (case s WALLET_LIST_KEY of
        None \<Rightarrow> []
      | Some data \<Rightarrow>
          if data = [] then []
          else (case json_parse P data of None \<Rightarrow> [] | Some wallets \<Rightarrow> wallets))"

text \<open>
  \<^verbatim>\<open>Array.prototype.find\<close> returns a reference to the first matching element of the
  array; the caller then assigns to its fields, which changes the array. The reference
  is modelled as the position of that element.
\<close>

fun find_ref :: "('a \<Rightarrow> bool) \<Rightarrow> 'a list \<Rightarrow> nat option" where
  "find_ref p [] = None"
| "find_ref p (x # xs) = (if p x then Some 0 else map_option Suc (find_ref p xs))"

text \<open>
  \<open>clock i\<close> is the result of the \<open>i\<close>-th evaluation of
  \<^verbatim>\<open>new Date().toISOString()\<close> during the call: one in the update branch, two in the
  insert branch (first for \<^verbatim>\<open>createdAt\<close>, then for \<^verbatim>\<open>lastUsed\<close>).
\<close>

definition addWalletToList ::
  "'k platform \<Rightarrow> (nat \<Rightarrow> jsstring) \<Rightarrow> jsstring \<Rightarrow> jsstring \<Rightarrow> bool \<Rightarrow> storage \<Rightarrow> storage" where
  "addWalletToList P clock fname net hasM s =
     (let wallets = getStoredWallets P s;
          wallets' =
            (case find_ref (\<lambda>w. filename w = fname) wallets of
               Some i \<Rightarrow>
                 (let e1 = (wallets ! i)\<lparr>network := net\<rparr>;
                      e2 = e1\<lparr>lastUsed := clock 0\<rparr>;
                      e3 = (if hasM then e2\<lparr>hasMnemonic := True\<rparr> else e2)
                  in wallets[i := e3])
             | None \<Rightarrow>
                 wallets @ [\<lparr>filename = fname, network = net, createdAt = clock 0,
                             lastUsed = clock 1, hasMnemonic = hasM\<rparr>])
      in s(WALLET_LIST_KEY \<mapsto> json_stringify P wallets'))"


section \<open>Platform codecs used by the encryption layer\<close>

subsection \<open>UTF-8: \<^verbatim>\<open>TextEncoder\<close> and \<^verbatim>\<open>TextDecoder\<close>\<close>

text \<open>
  \<^verbatim>\<open>new TextEncoder().encode(s)\<close> first converts \<open>s\<close> to a sequence of Unicode scalar
  values (a lead surrogate followed by a trail surrogate is one supplementary code
  point, any other surrogate becomes U+FFFD) and then writes each scalar value in UTF-8.
\<close>

definition is_lead :: "nat \<Rightarrow> bool" where
  "is_lead u \<longleftrightarrow> 0xD800 \<le> u \<and> u \<le> 0xDBFF"

definition is_trail :: "nat \<Rightarrow> bool" where
  "is_trail u \<longleftrightarrow> 0xDC00 \<le> u \<and> u \<le> 0xDFFF"

fun scalar_values :: "nat list \<Rightarrow> nat list" where
  "scalar_values [] = []"
| "scalar_values [u] = (if is_lead u \<or> is_trail u then [0xFFFD] else [u])"
| "scalar_values (u # v # us) =
     (if is_lead u \<and> is_trail v
      then (0x10000 + (u - 0xD800) * 0x400 + (v - 0xDC00)) # scalar_values us
      else if is_lead u \<or> is_trail u then 0xFFFD # scalar_values (v # us)
      else u # scalar_values (v # us))"

definition utf8_bytes :: "nat \<Rightarrow> bytes" where
  "utf8_bytes c =
     (if c < 0x80 then [of_nat c]
      else if c < 0x800 then [of_nat (0xC0 + c div 64), of_nat (0x80 + c mod 64)]
      else if c < 0x10000 then
        [of_nat (0xE0 + c div 4096), of_nat (0x80 + c div 64 mod 64), of_nat (0x80 + c mod 64)]
      else
        [of_nat (0xF0 + c div 262144), of_nat (0x80 + c div 4096 mod 64),
         of_nat (0x80 + c div 64 mod 64), of_nat (0x80 + c mod 64)])"

definition TextEncoder_encode :: "jsstring \<Rightarrow> bytes" where
  "TextEncoder_encode s = concat (map utf8_bytes (scalar_values (map unat s)))"

text \<open>
  \<^verbatim>\<open>new TextDecoder().decode(buf)\<close> runs the UTF-8 decoder of the Encoding Standard in
  replacement mode (\<^verbatim>\<open>fatal\<close> is false): the state is the code point collected so
  far, the number of continuation bytes still needed (bytes needed less bytes seen) and
  the bounds for the next byte; an ill-formed sequence yields U+FFFD, and a byte that
  cannot continue a sequence is read again as the start of the next one. The masks
  \<^verbatim>\<open>& 0x1F\<close>, \<^verbatim>\<open>& 0xF\<close>, \<^verbatim>\<open>& 0x7\<close> and \<^verbatim>\<open>& 0x3F\<close> of the standard are written
  as subtractions of 0xC0, 0xE0, 0xF0 and 0x80, which is what they are on the ranges
  where they are applied. Since \<^verbatim>\<open>ignoreBOM\<close> is false, a first decoded code point
  U+FEFF is dropped. The result is written in UTF-16.
\<close>

function utf8_decoder :: "nat \<Rightarrow> nat \<Rightarrow> nat \<Rightarrow> nat \<Rightarrow> bytes \<Rightarrow> nat list" where
  "utf8_decoder cp needed lower upper [] = (if needed \<noteq> 0 then [0xFFFD] else [])"
| "utf8_decoder cp needed lower upper (b # bs) =
     (let v = unat b in
      if needed = 0 then
        if v \<le> 0x7F then v # utf8_decoder 0 0 0x80 0xBF bs
        else if 0xC2 \<le> v \<and> v \<le> 0xDF then utf8_decoder (v - 0xC0) 1 0x80 0xBF bs
        else if 0xE0 \<le> v \<and> v \<le> 0xEF then
          utf8_decoder (v - 0xE0) 2 (if v = 0xE0 then 0xA0 else 0x80)
            (if v = 0xED then 0x9F else 0xBF) bs
        else if 0xF0 \<le> v \<and> v \<le> 0xF4 then
          utf8_decoder (v - 0xF0) 3 (if v = 0xF0 then 0x90 else 0x80)
            (if v = 0xF4 then 0x8F else 0xBF) bs
        else 0xFFFD # utf8_decoder 0 0 0x80 0xBF bs
      else if v < lower \<or> upper < v then 0xFFFD # utf8_decoder 0 0 0x80 0xBF (b # bs)
      else if needed = 1 then (cp * 64 + (v - 0x80)) # utf8_decoder 0 0 0x80 0xBF bs
      else utf8_decoder (cp * 64 + (v - 0x80)) (needed - 1) 0x80 0xBF bs)"
  by pat_completeness auto
termination
  by (relation "measure (\<lambda>(cp, needed, lower, upper, bs).
        2 * length bs + (if needed = 0 then 0 else 1))") auto

definition strip_bom :: "nat list \<Rightarrow> nat list" where
  "strip_bom cs = (case cs of [] \<Rightarrow> [] | c # rest \<Rightarrow> if c = 0xFEFF then rest else cs)"

definition utf16_units :: "nat \<Rightarrow> jsstring" where
  "utf16_units c =
     (if c < 0x10000 then [of_nat c]
      else [of_nat (0xD800 + (c - 0x10000) div 0x400), of_nat (0xDC00 + (c - 0x10000) mod 0x400)])"

definition TextDecoder_decode :: "bytes \<Rightarrow> jsstring" where
  "TextDecoder_decode buf = concat (map utf16_units (strip_bom (utf8_decoder 0 0 0x80 0xBF buf)))"




subsection \<open>Base64: \<^verbatim>\<open>btoa\<close> and \<^verbatim>\<open>atob\<close>\<close>


definition b64_index :: "16 word \<Rightarrow> nat option" where
  "b64_index u =
     (let c = unat u in
      if 65 \<le> c \<and> c \<le> 90 then Some (c - 65)
      else if 97 \<le> c \<and> c \<le> 122 then Some (c - 71)
      else if 48 \<le> c \<and> c \<le> 57 then Some (c + 4)
      else if c = 43 then Some 62
      else if c = 47 then Some 63
      else None)"




text \<open>
  \<^verbatim>\<open>atob\<close> is the forgiving-base64 decode of the Infra Standard: ASCII whitespace is
  removed; if the length is then a multiple of four, one or two trailing \<^verbatim>\<open>=\<close> are
  removed; a length of 1 modulo 4 or a character outside the alphabet is an
  \<^verbatim>\<open>InvalidCharacterError\<close>; the remaining characters carry six bits each, and the
  two or four bits left over at the end are discarded.
\<close>

definition is_ascii_whitespace :: "16 word \<Rightarrow> bool" where
  "is_ascii_whitespace u \<longleftrightarrow> u = 9 \<or> u = 10 \<or> u = 12 \<or> u = 13 \<or> u = 32"

definition strip_padding :: "jsstring \<Rightarrow> jsstring" where
  "strip_padding d =
     (if length d mod 4 = 0 \<and> d \<noteq> [] \<and> last d = 61
      then (let d' = butlast d in if d' \<noteq> [] \<and> last d' = 61 then butlast d' else d')
      else d)"

fun b64_decode :: "nat list \<Rightarrow> nat list" where
  "b64_decode (a # b # c # d # r) =
     [a * 4 + b div 16, b mod 16 * 16 + c div 4, c mod 4 * 64 + d] @ b64_decode r"
| "b64_decode [a, b, c] = [a * 4 + b div 16, b mod 16 * 16 + c div 4]"
| "b64_decode [a, b] = [a * 4 + b div 16]"
| "b64_decode _ = []"

definition atob :: "jsstring \<Rightarrow> jsstring option" where
  "atob data =
     (let d = strip_padding (filter (\<lambda>u. \<not> is_ascii_whitespace u) data) in
      if length d mod 4 = 1 then None
      else (case those (map b64_index d) of
              None \<Rightarrow> None
            | Some sextets \<Rightarrow> Some (map of_nat (b64_decode sextets))))"


definition Uint8Array_from_charCodes :: "jsstring \<Rightarrow> bytes" where
  \<comment> \<open>\<^verbatim>\<open>Uint8Array.from(str, c => c.charCodeAt(0))\<close>: each code unit modulo 256\<close>
  "Uint8Array_from_charCodes s = map ucast s"

section \<open>Encryption of the mnemonic\<close>

text \<open>
  Exceptions are values. \<open>InvalidCharacterError\<close> is what \<^verbatim>\<open>atob\<close> and \<^verbatim>\<open>btoa\<close>
  throw (the specification's \<^verbatim>\<open>DecodeError\<close>), \<open>OperationError\<close> is the rejection of
  \<^verbatim>\<open>crypto.subtle.decrypt\<close> (the specification's \<^verbatim>\<open>DecryptionError\<close>). Quota and
  availability errors of \<^verbatim>\<open>localStorage\<close> and resource limits of the engine are
  outside the model: the storage is a total, unbounded map.
\<close>

datatype error = InvalidCharacterError | OperationError

text \<open>
  The calls that \<^verbatim>\<open>decrypt\<close> makes to the Web Crypto API are recorded in the order
  they are made, with their arguments.
\<close>

datatype 'k crypto_call = DeriveKey bytes bytes | AesGcmDecrypt 'k bytes bytes

definition deriveKey :: "'k platform \<Rightarrow> jsstring \<Rightarrow> bytes \<Rightarrow> 'k" where
  "deriveKey P password salt =
     (let passwordBuffer = TextEncoder_encode password
      in pbkdf2_sha256 P passwordBuffer salt PBKDF2_ITERATIONS KEY_LENGTH)"



definition decrypt ::
  "'k platform \<Rightarrow> jsstring \<Rightarrow> jsstring \<Rightarrow> 'k crypto_call list \<times> (error + jsstring)" where
  "decrypt P encoded password =
     (case atob encoded of
        None \<Rightarrow> ([], Inl InvalidCharacterError)
      | Some binary \<Rightarrow>
          (let combined = Uint8Array_from_charCodes binary;
               salt = take SALT_LENGTH combined;
               iv = take IV_LENGTH (drop SALT_LENGTH combined);
               ciphertext = drop (SALT_LENGTH + IV_LENGTH) combined;
               key = deriveKey P password salt;
               calls = [DeriveKey (TextEncoder_encode password) salt,
                        AesGcmDecrypt key iv ciphertext]
           in (case aes_gcm_decrypt P key iv ciphertext of
                 None \<Rightarrow> (calls, Inl OperationError)
               | Some plaintextBuffer \<Rightarrow> (calls, Inr (TextDecoder_decode plaintextBuffer)))))"


section \<open>Storing and retrieving the mnemonic\<close>


text \<open>\<^verbatim>\<open>try { ... } catch { return null; }\<close>: every exception of the body becomes \<open>None\<close>.\<close>

definition catch_null :: "error + 'a option \<Rightarrow> error + 'a option" where
  "catch_null r = (case r of Inl e \<Rightarrow> Inr None | Inr v \<Rightarrow> Inr v)"

definition retrieveMnemonic ::
  "'k platform \<Rightarrow> jsstring \<Rightarrow> jsstring \<Rightarrow> storage \<Rightarrow> error + jsstring option" where
  "retrieveMnemonic P fname password s =
     catch_null
       (case s (MNEMONIC_PREFIX @ fname) of
          None \<Rightarrow> Inr None
        | Some encrypted \<Rightarrow>
            if encrypted = [] then Inr None
            else (case snd (decrypt P encrypted password) of
                    Inl e \<Rightarrow> Inl e
                  | Inr mnemonic \<Rightarrow> Inr (Some mnemonic)))"

section \<open>Assumptions on the platform\<close>

text \<open>
  What the theorems below need from the browser is stated as predicates on the platform
  parameter. \<open>json_ok\<close>: a serialized registry is never the empty string and parses back
  to the array that was serialized. \<open>aead_correct\<close>: AES-GCM decryption under the key
  and IV of the encryption returns the plaintext. The last two describe the ideal
  (symbolic) behaviour that the module relies on for password checking, which real
  primitives provide up to negligible probability: ciphertexts are rejected under any
  other key, and different passwords never derive the same key from the same salt.
\<close>

definition json_ok :: "'k platform \<Rightarrow> bool" where
  "json_ok P \<longleftrightarrow>
     (\<forall>ws. json_stringify P ws \<noteq> [] \<and> json_parse P (json_stringify P ws) = Some ws)"




text \<open>
  AES-GCM appends a 128-bit tag to the ciphertext, so \<^verbatim>\<open>crypto.subtle.decrypt\<close>
  rejects an input that is too short to hold one; the empty input is all that is needed
  here.
\<close>

definition empty_ciphertext_rejected :: "'k platform \<Rightarrow> bool" where
  "empty_ciphertext_rejected P \<longleftrightarrow> (\<forall>k iv. aes_gcm_decrypt P k iv [] = None)"

section \<open>A reference platform\<close>

text \<open>
  An executable instance of the platform, on which the theorems are exercised at
  concrete inputs. Its cryptography is symbolic: a key is the pair of password and salt
  it was derived from, and a ciphertext is a header naming key and IV, followed by the
  plaintext; decryption checks the header. Its registry serialization writes every
  field of every record as a self-delimiting frame.
\<close>

definition frame :: "'a::zero_neq_one list \<Rightarrow> 'a list" where
  "frame xs = concat (map (\<lambda>x. [1, x]) xs) @ [0]"

fun unframes :: "'a::zero_neq_one list \<Rightarrow> 'a list \<Rightarrow> 'a list list option" where
  "unframes acc [] = (if acc = [] then Some [] else None)"
| "unframes acc [t] = (if t = 0 then Some [rev acc] else None)"
| "unframes acc (t # u # rest) =
     (if t = 0 then map_option ((#) (rev acc)) (unframes [] (u # rest))
      else unframes (u # acc) rest)"

definition wallet_fields :: "wallet \<Rightarrow> jsstring list" where
  "wallet_fields w =
     [filename w, network w, createdAt w, lastUsed w, if hasMnemonic w then [1] else []]"

fun wallets_of :: "jsstring list \<Rightarrow> wallet list option" where
  "wallets_of [] = Some []"
| "wallets_of (f # n # c # l # h # r) =
     map_option ((#) \<lparr>filename = f, network = n, createdAt = c, lastUsed = l,
                      hasMnemonic = (h \<noteq> [])\<rparr>) (wallets_of r)"
| "wallets_of _ = None"

definition ref_stringify :: "wallet list \<Rightarrow> jsstring" where
  "ref_stringify ws = 91 # concat (map frame (concat (map wallet_fields ws)))"

definition ref_parse :: "jsstring \<rightharpoonup> wallet list" where
  "ref_parse s =
     (case s of [] \<Rightarrow> None
      | c # rest \<Rightarrow> if c = 91 then Option.bind (unframes [] rest) wallets_of else None)"

definition ref_header :: "bytes \<times> bytes \<Rightarrow> bytes \<Rightarrow> bytes" where
  "ref_header k iv = frame (fst k) @ frame (snd k) @ frame iv"

definition ref_platform :: "(bytes \<times> bytes) platform" where
  "ref_platform =
     \<lparr>pbkdf2_sha256 = (\<lambda>pw salt iterations len. (pw, salt)),
      aes_gcm_encrypt = (\<lambda>k iv pt. ref_header k iv @ pt),
      aes_gcm_decrypt = (\<lambda>k iv ct.
        if take (length (ref_header k iv)) ct = ref_header k iv
        then Some (drop (length (ref_header k iv)) ct) else None),
      json_stringify = ref_stringify,
      json_parse = ref_parse\<rparr>"

text \<open>A registered wallet, a storage holding it, an empty storage, and two clocks.\<close>

definition demo_wallet :: wallet where
  "demo_wallet =
     \<lparr>filename = js ''w1'', network = js ''testnet-10'', createdAt = js ''2024-01-01T00:00:00.000Z'',
      lastUsed = js ''2024-01-01T00:00:00.000Z'', hasMnemonic = True\<rparr>"

definition demo_storage :: storage where
  "demo_storage = Map.empty(WALLET_LIST_KEY \<mapsto> ref_stringify [demo_wallet])"


definition steady_clock :: "nat \<Rightarrow> jsstring" where
  "steady_clock i = js ''2024-06-01T12:00:00.000Z''"



section \<open>Basic facts\<close>








lemma getStoredWallets_written:
  "json_ok P \<Longrightarrow> getStoredWallets P (s(WALLET_LIST_KEY \<mapsto> json_stringify P ws)) = ws"
  by (simp add: getStoredWallets_def json_ok_def)


lemma find_ref_None: "find_ref p xs = None \<longleftrightarrow> (\<forall>x\<in>set xs. \<not> p x)"
  by (induction xs) auto

lemma find_ref_Some:
  "find_ref p xs = Some i \<Longrightarrow> i < length xs \<and> p (xs ! i) \<and> (\<forall>j<i. \<not> p (xs ! j))"
proof (induction xs arbitrary: i)
  case Nil
  then show ?case by simp
next
  case (Cons x xs)
  show ?case
  proof (cases "p x")
    case True
    with Cons.prems show ?thesis by simp
  next
    case False
    with Cons.prems obtain k where k: "find_ref p xs = Some k" "i = Suc k"
      by auto
    from Cons.IH [OF k(1)] False k(2) show ?thesis
      by (auto simp: less_Suc_eq_0_disj)
  qed
qed

lemma addWalletToList_update:
  assumes "json_ok P" and "find_ref (\<lambda>w. filename w = f) (getStoredWallets P s) = Some i"
  shows "getStoredWallets P (addWalletToList P clock f net h s) =
     (getStoredWallets P s)[i := (getStoredWallets P s ! i)
        \<lparr>network := net, lastUsed := clock 0,
         hasMnemonic := hasMnemonic (getStoredWallets P s ! i) \<or> h\<rparr>]"
  using assms by (simp add: addWalletToList_def Let_def getStoredWallets_written)





lemma atob_short: "atob (js ''AAAA'') = Some [0, 0, 0]"
  by (simp add: atob_def js_def is_ascii_whitespace_def strip_padding_def b64_index_def)

lemma atob_malformed: "atob (js ''!!!'') = None"
  by (simp add: atob_def js_def is_ascii_whitespace_def strip_padding_def b64_index_def)

subsection \<open>UTF-8 round trip\<close>










lemma recompose: "(c::nat) div 64 * 64 + c mod 64 = c"
  by simp




























subsection \<open>Base64 round trip\<close>



















subsection \<open>Decrypting what \<^verbatim>\<open>encrypt\<close> produced\<close>






lemma empty_ciphertext_rejectedD:
  "empty_ciphertext_rejected P \<Longrightarrow> aes_gcm_decrypt P k iv [] = None"
  by (simp add: empty_ciphertext_rejected_def)









subsection \<open>The reference platform meets the assumptions\<close>

lemma unframes_frame:
  "unframes acc (concat (map (\<lambda>x. [1, x]) xs) @ 0 # rest) =
     map_option ((#) (rev acc @ xs)) (unframes [] rest)"
proof (induction xs arbitrary: acc)
  case Nil
  show ?case by (cases rest) simp_all
next
  case (Cons x xs)
  show ?case using Cons.IH [of "x # acc"] by simp
qed

lemma unframes_frame_append:
  "unframes [] (frame xs @ rest) = map_option ((#) xs) (unframes [] rest)"
  using unframes_frame [of "[]" xs rest] by (simp add: frame_def)

lemma unframes_frames: "unframes [] (concat (map frame xss)) = Some xss"
  by (induction xss) (simp_all add: unframes_frame_append)

lemma wallets_of_fields: "wallets_of (concat (map wallet_fields ws)) = Some ws"
  by (induction ws) (simp_all add: wallet_fields_def)

lemma ref_json_ok: "json_ok ref_platform"
  by (simp add: json_ok_def ref_platform_def ref_stringify_def ref_parse_def
      unframes_frames wallets_of_fields)






lemma ref_empty_ciphertext_rejected: "empty_ciphertext_rejected ref_platform"
  by (simp add: empty_ciphertext_rejected_def ref_platform_def ref_header_def frame_def)

lemma demo_registry: "getStoredWallets ref_platform demo_storage = [demo_wallet]"
proof -
  have s: "demo_storage = Map.empty(WALLET_LIST_KEY \<mapsto> json_stringify ref_platform [demo_wallet])"
    by (simp add: demo_storage_def ref_platform_def)
  show ?thesis
    unfolding s using ref_json_ok by (rule getStoredWallets_written)
qed


section \<open>The claims about encryption\<close>




text \<open>
  Claim C2, amended. On input that is not well-formed base64, \<^verbatim>\<open>decrypt\<close> fails with
  the error of \<^verbatim>\<open>atob\<close> before any call to the Web Crypto API. The decoded length is
  not checked: on every well-formed input \<^verbatim>\<open>decrypt\<close> slices salt, IV and ciphertext
  from the bytes there are, derives the key and attempts the AES-GCM decryption, and
  never reports the decoding error. With fewer than 28 bytes the ciphertext is empty,
  which AES-GCM rejects, so the call fails then too, with the error of the decryption.
\<close>

theorem decrypt_guards:
  "(atob encoded = None \<longrightarrow> decrypt P encoded password = ([], Inl InvalidCharacterError)) \<and>
   (\<forall>binary. atob encoded = Some binary \<longrightarrow>
      fst (decrypt P encoded password) =
        [DeriveKey (TextEncoder_encode password)
           (take SALT_LENGTH (Uint8Array_from_charCodes binary)),
         AesGcmDecrypt
           (deriveKey P password (take SALT_LENGTH (Uint8Array_from_charCodes binary)))
           (take IV_LENGTH (drop SALT_LENGTH (Uint8Array_from_charCodes binary)))
           (drop (SALT_LENGTH + IV_LENGTH) (Uint8Array_from_charCodes binary))] \<and>
      snd (decrypt P encoded password) \<noteq> Inl InvalidCharacterError \<and>
      (length binary < SALT_LENGTH + IV_LENGTH \<and> empty_ciphertext_rejected P \<longrightarrow>
         snd (decrypt P encoded password) = Inl OperationError))"
  by (auto simp: decrypt_def Let_def Uint8Array_from_charCodes_def empty_ciphertext_rejected_def
      split: option.splits)

theorem decrypt_guards_counterexample:
  "atob (js ''AAAA'') = Some [0, 0, 0] \<and>
   decrypt ref_platform (js ''AAAA'') (js ''pw'') =
     ([DeriveKey [112, 119] [0, 0, 0], AesGcmDecrypt ([112, 119], [0, 0, 0]) [] []],
      Inl OperationError)"
proof -
  have e: "TextEncoder_encode (js ''pw'') = [112, 119]"
    by (simp add: TextEncoder_encode_def js_def is_lead_def is_trail_def utf8_bytes_def)
  have d: "aes_gcm_decrypt ref_platform k iv [] = None" for k iv
    using ref_empty_ciphertext_rejected by (rule empty_ciphertext_rejectedD)
  show ?thesis
    by (simp add: decrypt_def atob_short Let_def Uint8Array_from_charCodes_def deriveKey_def e d
        SALT_LENGTH_def IV_LENGTH_def)
      (simp add: ref_platform_def)
qed

theorem decrypt_guards_witness:
  "atob (js ''!!!'') = None \<and>
   decrypt ref_platform (js ''!!!'') (js ''pw'') = ([], Inl InvalidCharacterError) \<and>
   atob (js ''AAAA'') = Some [0, 0, 0] \<and> length ([0, 0, 0] :: jsstring) < SALT_LENGTH + IV_LENGTH \<and>
   empty_ciphertext_rejected ref_platform \<and>
   snd (decrypt ref_platform (js ''AAAA'') (js ''pw'')) = Inl OperationError"
proof -
  have l: "length ([0, 0, 0] :: jsstring) < SALT_LENGTH + IV_LENGTH"
    by (simp add: SALT_LENGTH_def IV_LENGTH_def)
  from decrypt_guards [of "js ''!!!''" ref_platform "js ''pw''"]
    decrypt_guards [of "js ''AAAA''" ref_platform "js ''pw''"]
    atob_malformed atob_short l ref_empty_ciphertext_rejected
  show ?thesis by simp
qed




section \<open>The claims about the registry and the mnemonic store\<close>

text \<open>
  Claim C4. \<^verbatim>\<open>retrieveMnemonic\<close> returns \<^verbatim>\<open>null\<close> (\<open>Inr None\<close>) when no blob is
  stored for the filename (or an empty one) and when \<^verbatim>\<open>decrypt\<close> fails with any
  error; it never raises.
\<close>
theorem retrieveMnemonic_absent:
  "(s (MNEMONIC_PREFIX @ f) = None \<or> s (MNEMONIC_PREFIX @ f) = Some [] \<or>
    (\<exists>encrypted e. s (MNEMONIC_PREFIX @ f) = Some encrypted \<and>
        snd (decrypt P encrypted password) = Inl e)
    \<longrightarrow> retrieveMnemonic P f password s = Inr None) \<and>
   (\<forall>e. retrieveMnemonic P f password s \<noteq> Inl e)"
  by (auto simp: retrieveMnemonic_def catch_null_def split: option.splits sum.splits)

theorem retrieveMnemonic_absent_witness:
  "(Map.empty :: storage) (MNEMONIC_PREFIX @ js ''w1'') = None \<and>
   retrieveMnemonic ref_platform (js ''w1'') (js ''pw'') Map.empty = Inr None \<and>
   retrieveMnemonic ref_platform (js ''w1'') (js ''pw'')
     (Map.empty(MNEMONIC_PREFIX @ js ''w1'' \<mapsto> [])) = Inr None \<and>
   snd (decrypt ref_platform (js ''!!!'') (js ''pw'')) = Inl InvalidCharacterError \<and>
   retrieveMnemonic ref_platform (js ''w1'') (js ''pw'')
     (Map.empty(MNEMONIC_PREFIX @ js ''w1'' \<mapsto> js ''!!!'')) = Inr None"
proof -
  have d: "snd (decrypt ref_platform (js ''!!!'') (js ''pw'')) = Inl InvalidCharacterError"
    by (simp add: decrypt_def atob_malformed)
  from retrieveMnemonic_absent [of Map.empty "js ''w1''" ref_platform "js ''pw''"]
    retrieveMnemonic_absent [of "Map.empty(MNEMONIC_PREFIX @ js ''w1'' \<mapsto> [])"
      "js ''w1''" ref_platform "js ''pw''"]
    retrieveMnemonic_absent [of "Map.empty(MNEMONIC_PREFIX @ js ''w1'' \<mapsto> js ''!!!'')"
      "js ''w1''" ref_platform "js ''pw''"] d
  show ?thesis by simp
qed

text \<open>
  Claim C5. \<^verbatim>\<open>addWalletToList(f, net', false)\<close> never clears the flag: a record of \<open>f\<close>
  that has \<open>hasMnemonic\<close> set before the call is still at its position, still a record
  of \<open>f\<close>, and still has \<open>hasMnemonic\<close> set afterwards.
\<close>
theorem upsert_hasMnemonic_monotone:
  assumes "json_ok P"
    and "i < length (getStoredWallets P s)"
    and "filename (getStoredWallets P s ! i) = f"
    and "hasMnemonic (getStoredWallets P s ! i)"
  shows "i < length (getStoredWallets P (addWalletToList P clock f net' False s)) \<and>
         filename (getStoredWallets P (addWalletToList P clock f net' False s) ! i) = f \<and>
         hasMnemonic (getStoredWallets P (addWalletToList P clock f net' False s) ! i)"
proof -
  let ?ws = "getStoredWallets P s"
  from assms(2,3) have "\<exists>x\<in>set ?ws. filename x = f"
    by (intro bexI [of _ "?ws ! i"]) simp_all
  then obtain k where k: "find_ref (\<lambda>w. filename w = f) ?ws = Some k"
    using find_ref_None [of "\<lambda>w. filename w = f" ?ws]
    by (cases "find_ref (\<lambda>w. filename w = f) ?ws") auto
  from find_ref_Some [OF k] have kl: "k < length ?ws" and kf: "filename (?ws ! k) = f"
    by auto
  show ?thesis
    using assms(2-4) kl kf
    by (cases "i = k") (simp_all add: addWalletToList_update [OF assms(1) k])
qed

theorem upsert_hasMnemonic_monotone_witness:
  "json_ok ref_platform \<and> 0 < length (getStoredWallets ref_platform demo_storage) \<and>
   filename (getStoredWallets ref_platform demo_storage ! 0) = js ''w1'' \<and>
   hasMnemonic (getStoredWallets ref_platform demo_storage ! 0) \<and>
   hasMnemonic (getStoredWallets ref_platform
     (addWalletToList ref_platform steady_clock (js ''w1'') (js ''mainnet'') False demo_storage) ! 0)"
proof -
  have h: "0 < length (getStoredWallets ref_platform demo_storage)"
    "filename (getStoredWallets ref_platform demo_storage ! 0) = js ''w1''"
    "hasMnemonic (getStoredWallets ref_platform demo_storage ! 0)"
    by (simp_all add: demo_registry demo_wallet_def)
  from upsert_hasMnemonic_monotone [OF ref_json_ok h, of steady_clock "js ''mainnet''"]
  show ?thesis using h ref_json_ok by simp
qed










text \<open>
  Claim C10. When a record of \<open>f\<close> exists, \<^verbatim>\<open>addWalletToList(f, net, h)\<close> keeps the
  length and order of the registry, leaves every other record as it was, and changes in
  the first record of \<open>f\<close> only \<open>network\<close>, \<open>lastUsed\<close> and (from false to true, when
  \<open>h\<close>) \<open>hasMnemonic\<close>; \<open>filename\<close> and \<open>createdAt\<close> stay. No other key of the storage
  is touched.
\<close>
theorem upsert_existing_frame:
  assumes "json_ok P"
    and "find_ref (\<lambda>w. filename w = f) (getStoredWallets P s) = Some i"
  shows "length (getStoredWallets P (addWalletToList P clock f net h s)) =
           length (getStoredWallets P s) \<and>
         (\<forall>j < length (getStoredWallets P s). j \<noteq> i \<longrightarrow>
            getStoredWallets P (addWalletToList P clock f net h s) ! j =
            getStoredWallets P s ! j) \<and>
         getStoredWallets P (addWalletToList P clock f net h s) ! i =
           (getStoredWallets P s ! i)
             \<lparr>network := net, lastUsed := clock 0,
              hasMnemonic := hasMnemonic (getStoredWallets P s ! i) \<or> h\<rparr> \<and>
         (\<forall>k. k \<noteq> WALLET_LIST_KEY \<longrightarrow> addWalletToList P clock f net h s k = s k)"
  using find_ref_Some [OF assms(2)]
  by (simp add: addWalletToList_update [OF assms]) (simp add: addWalletToList_def Let_def)

theorem upsert_existing_frame_witness:
  "json_ok ref_platform \<and>
   find_ref (\<lambda>w. filename w = js ''w1'') (getStoredWallets ref_platform demo_storage) = Some 0 \<and>
   getStoredWallets ref_platform
     (addWalletToList ref_platform steady_clock (js ''w1'') (js ''mainnet'') False demo_storage) =
   [demo_wallet\<lparr>network := js ''mainnet'', lastUsed := steady_clock 0\<rparr>]"
proof -
  have h: "find_ref (\<lambda>w. filename w = js ''w1'') (getStoredWallets ref_platform demo_storage) = Some 0"
    by (simp add: demo_registry demo_wallet_def)
  from upsert_existing_frame [OF ref_json_ok h, of steady_clock "js ''mainnet''" False]
  have "length (getStoredWallets ref_platform
     (addWalletToList ref_platform steady_clock (js ''w1'') (js ''mainnet'') False demo_storage)) = 1"
    and "getStoredWallets ref_platform
     (addWalletToList ref_platform steady_clock (js ''w1'') (js ''mainnet'') False demo_storage) ! 0 =
     demo_wallet\<lparr>network := js ''mainnet'', lastUsed := steady_clock 0\<rparr>"
    by (simp_all add: demo_registry demo_wallet_def)
  then have "getStoredWallets ref_platform
     (addWalletToList ref_platform steady_clock (js ''w1'') (js ''mainnet'') False demo_storage) =
     [demo_wallet\<lparr>network := js ''mainnet'', lastUsed := steady_clock 0\<rparr>]"
    by (metis One_nat_def length_0_conv length_Suc_conv nth_Cons_0)
  with h ref_json_ok show ?thesis by simp
qed

end
